theory Spec2Isabelle
  imports Complex_Main
begin

section \<open>JavaScript values used by the analyser\<close>

text \<open>
  A JavaScript number is an IEEE double. The analyser only ever forms counts, differences
  of millisecond time stamps, quotients of those, and sums of products of a sub-score (a
  multiple of 5 between 0 and 100) with one of the weights 0.25, 0.15 and 0.1. Every such
  product and every partial sum is a multiple of 0.25 and is computed without rounding
  error in double arithmetic, so finite numbers are modelled by exact rationals; the three
  special values are kept, because the code can produce two of them (a division by zero
  and an invalid date). Negative zero is not distinguished.
\<close>

datatype number = Fin rat | Infinity | NegInfinity | NaN

fun num_add :: "number \<Rightarrow> number \<Rightarrow> number" where
  "num_add (Fin a) (Fin b) = Fin (a + b)"
| "num_add NaN _ = NaN"
| "num_add _ NaN = NaN"
| "num_add Infinity NegInfinity = NaN"
| "num_add NegInfinity Infinity = NaN"
| "num_add Infinity _ = Infinity"
| "num_add _ Infinity = Infinity"
| "num_add NegInfinity _ = NegInfinity"
| "num_add _ NegInfinity = NegInfinity"

fun num_neg :: "number \<Rightarrow> number" where
  "num_neg (Fin a) = Fin (- a)"
| "num_neg Infinity = NegInfinity"
| "num_neg NegInfinity = Infinity"
| "num_neg NaN = NaN"

definition num_sub :: "number \<Rightarrow> number \<Rightarrow> number" where
  "num_sub x y = num_add x (num_neg y)"

text \<open>The sign of a number: 1, 0 or -1; \<open>None\<close> for NaN.\<close>

fun num_sgn :: "number \<Rightarrow> rat option" where
  "num_sgn (Fin a) = Some (sgn a)"
| "num_sgn Infinity = Some 1"
| "num_sgn NegInfinity = Some (- 1)"
| "num_sgn NaN = None"

definition signed_inf :: "rat \<Rightarrow> number" where
  "signed_inf s = (if s = 0 then NaN else if 0 < s then Infinity else NegInfinity)"

fun num_mul :: "number \<Rightarrow> number \<Rightarrow> number" where
  "num_mul (Fin a) (Fin b) = Fin (a * b)"
| "num_mul x y =
     (case (num_sgn x, num_sgn y) of
        (Some s, Some t) \<Rightarrow> signed_inf (s * t)
      | _ \<Rightarrow> NaN)"

text \<open>
  Division: a finite non-zero number divided by zero is an infinity, \<open>0 / 0\<close> is NaN,
  a finite number divided by an infinity is zero.
\<close>

fun num_div :: "number \<Rightarrow> number \<Rightarrow> number" where
  "num_div (Fin a) (Fin b) = (if b = 0 then signed_inf a else Fin (a / b))"
| "num_div (Fin a) Infinity = Fin 0"
| "num_div (Fin a) NegInfinity = Fin 0"
| "num_div Infinity (Fin b) = (if b < 0 then NegInfinity else Infinity)"
| "num_div NegInfinity (Fin b) = (if b < 0 then Infinity else NegInfinity)"
| "num_div _ _ = NaN"

text \<open>Comparisons: every comparison with NaN is false.\<close>

fun num_ge :: "number \<Rightarrow> number \<Rightarrow> bool" where
  "num_ge NaN _ = False"
| "num_ge _ NaN = False"
| "num_ge (Fin a) (Fin b) = (b \<le> a)"
| "num_ge Infinity _ = True"
| "num_ge _ NegInfinity = True"
| "num_ge _ _ = False"

fun num_gt :: "number \<Rightarrow> number \<Rightarrow> bool" where
  "num_gt NaN _ = False"
| "num_gt _ NaN = False"
| "num_gt (Fin a) (Fin b) = (b < a)"
| "num_gt Infinity Infinity = False"
| "num_gt NegInfinity NegInfinity = False"
| "num_gt Infinity _ = True"
| "num_gt _ NegInfinity = True"
| "num_gt _ _ = False"

text \<open>\<open>Math.round\<close>: the nearest integer, a tie going up; the special values are kept.\<close>

fun Math_round :: "number \<Rightarrow> number" where
  "Math_round (Fin a) = Fin (of_int \<lfloor>a + 1 / 2\<rfloor>)"
| "Math_round x = x"

abbreviation num_of_nat :: "nat \<Rightarrow> number" where
  "num_of_nat n \<equiv> Fin (of_nat n)"

abbreviation num_of_int :: "int \<Rightarrow> number" where
  "num_of_int n \<equiv> Fin (of_int n)"

subsection \<open>Strings\<close>

text \<open>
  Strings are lists of characters. \<open>toLowerCase\<close>, \<open>trim\<close> and the whitespace
  class of the regular expression \<open>\<bsol>s\<close> are modelled on ASCII: the code also treats
  the other Unicode spaces, such as the no-break space, as whitespace, so its word count
  and its count of links with text differ from the model's on pages that contain them.
\<close>

definition startsWith :: "string \<Rightarrow> string \<Rightarrow> bool" where
  "startsWith s p = (take (length p) s = p)"

fun str_includes :: "string \<Rightarrow> string \<Rightarrow> bool" where
  "str_includes [] p = (p = [])"
| "str_includes (c # s) p = (startsWith (c # s) p \<or> str_includes s p)"

definition lower_char :: "char \<Rightarrow> char" where
  "lower_char c =
     (if 65 \<le> (of_char c :: nat) \<and> (of_char c :: nat) \<le> 90
      then char_of ((of_char c :: nat) + 32) else c)"

definition toLowerCase :: "string \<Rightarrow> string" where
  "toLowerCase s = map lower_char s"

definition isSpace :: "char \<Rightarrow> bool" where
  "isSpace c = ((of_char c :: nat) = 32 \<or> (9 \<le> (of_char c :: nat) \<and> (of_char c :: nat) \<le> 13))"

text \<open>
  \<open>s.split(/\<bsol>s+/)\<close>: the pieces between the maximal runs of whitespace. A run at
  the start or at the end leaves an empty piece there, and the empty string gives one
  empty piece.
\<close>

function split_ws :: "string \<Rightarrow> string list" where
  "split_ws [] = [[]]"
| "split_ws (c # cs) =
     (if isSpace c then [] # split_ws (dropWhile isSpace cs)
      else (case split_ws cs of
              [] \<Rightarrow> [[c]]
            | w # ws \<Rightarrow> (c # w) # ws))"
  by pat_completeness auto
termination
  by (relation "measure length") (auto simp: le_imp_less_Suc length_dropWhile_le)

text \<open>Truthiness of a string and of a string that may be \<open>undefined\<close>.\<close>

definition truthy :: "string \<Rightarrow> bool" where
  "truthy s = (s \<noteq> [])"

fun truthy_opt :: "string option \<Rightarrow> bool" where
  "truthy_opt None = False"
| "truthy_opt (Some s) = truthy s"

text \<open>Decimal digits of a natural number, and the string of an integral number.\<close>

fun show_nat :: "nat \<Rightarrow> string" where
  "show_nat n =
     (if n < 10 then [char_of (48 + n)]
      else show_nat (n div 10) @ [char_of (48 + n mod 10)])"

definition show_int :: "int \<Rightarrow> string" where
  "show_int i = (if i < 0 then CHR ''-'' # show_nat (nat (- i)) else show_nat (nat i))"

text \<open>
  Number-to-string conversion of a template literal. The program formats counts and
  results of \<open>Math.round\<close> only, so the finite case is the integral one.
\<close>

fun ToString :: "number \<Rightarrow> string" where
  "ToString NaN = ''NaN''"
| "ToString Infinity = ''Infinity''"
| "ToString NegInfinity = ''-Infinity''"
| "ToString (Fin a) = show_int \<lfloor>a\<rfloor>"


definition trim :: "string \<Rightarrow> string" where
  "trim s = rev (dropWhile isSpace (rev (dropWhile isSpace s)))"

section \<open>The fetched page and the outside world\<close>

text \<open>
  The parsed page is represented by what the analyser selects from it: for every
  selector of the source the matched elements, with the attributes and texts it reads.
  A response carries the page that \<open>cheerio.load\<close> made of its body. A body that makes
  \<open>cheerio.load\<close> throw ends the analysis where a rejected fetch does, before the
  notification of step 2 and inside the same \<open>try\<close>, and is represented like one.
\<close>

record img_el =
  alt :: "string option"
  title_attr :: "string option"

record a_el =
  href :: "string option"
  a_text :: string

record document =
  sel_title :: string  \<comment> \<open>\<open>$('title').text()\<close>\<close>
  sel_meta_description :: "string option"  \<comment> \<open>\<open>$('meta[name="description"]').attr('content')\<close>\<close>
  sel_h1 :: nat
  sel_h2 :: nat
  sel_h3 :: nat
  sel_img :: "img_el list"
  sel_a :: "a_el list"
  sel_p :: "string list"  \<comment> \<open>the text of each paragraph element\<close>
  sel_meta_viewport :: nat
  sel_meta_robots :: nat
  sel_meta_keywords :: nat
  sel_meta_author :: nat
  sel_meta_og :: nat
  sel_script :: nat
  sel_stylesheet :: nat
  sel_form :: "nat list"  \<comment> \<open>for each form, the number of label elements inside it\<close>

record response =
  data :: document
  headers :: "string \<rightharpoonup> string"

text \<open>
  The domain-registration lookup either rejects (also: any exception inside the
  \<open>try\<close> block of step 6) or resolves with data whose \<open>creationDate\<close> field denotes
  an instant in milliseconds, or is missing or not a date (\<open>None\<close>).
\<close>

datatype whois_outcome = Rejected string | Resolved "int option"

fun new_Date :: "int option \<Rightarrow> number" where
  "new_Date None = NaN"
| "new_Date (Some t) = num_of_int t"

record env =
  axios_get :: "string \<Rightarrow> string + response"  \<comment> \<open>\<open>Inl\<close>: it throws with this message\<close>
  whoisLookup :: "string \<Rightarrow> whois_outcome"
  now :: int  \<comment> \<open>the clock at step 6, in milliseconds\<close>

section \<open>The report\<close>

datatype jsval = JString string | JNumber number | JBool bool | JUndefined

record criterion =
  val :: jsval
  status :: string

type_synonym 'a obj = "(string \<times> 'a) list"

record report =
  score :: number
  details :: "criterion obj obj"

record performance =
  loadTime :: criterion
  scripts :: criterion
  stylesheets :: criterion

record accessibility =
  images :: criterion
  links :: criterion
  forms :: criterion

section \<open>Helper functions for score calculations\<close>

definition calculateSEOScore ::
  "string \<Rightarrow> string option \<Rightarrow> number \<Rightarrow> number \<Rightarrow> number \<Rightarrow> number \<Rightarrow> number \<Rightarrow> number" where
  "calculateSEOScore title metaDescription h1Count h2Count h3Count internalLinks externalLinks =
     (let score = (0 :: int);
          score = (if truthy title then score + 20 else score);
          score = (if truthy_opt metaDescription then score + 20 else score);
          score = (if num_gt h1Count (Fin 0) then score + 15 else score);
          score = (if num_gt h2Count (Fin 0) then score + 10 else score);
          score = (if num_gt h3Count (Fin 0) then score + 5 else score);
          score = (if num_gt internalLinks (Fin 0) then score + 15 else score);
          score = (if num_gt externalLinks (Fin 0) then score + 15 else score)
      in num_of_int score)"

definition calculateRequiredPagesScore :: "bool \<Rightarrow> bool \<Rightarrow> bool \<Rightarrow> bool \<Rightarrow> number" where
  "calculateRequiredPagesScore hasPrivacyPolicy hasContactPage hasAboutPage hasTermsPage =
     (let score = (0 :: int);
          score = (if hasPrivacyPolicy then score + 40 else score);
          score = (if hasContactPage then score + 20 else score);
          score = (if hasAboutPage then score + 20 else score);
          score = (if hasTermsPage then score + 20 else score)
      in num_of_int score)"

definition calculateSecurityScore :: "bool \<Rightarrow> bool \<Rightarrow> bool \<Rightarrow> bool \<Rightarrow> number" where
  "calculateSecurityScore isHttps hasHsts hasXssProtection hasCsp =
     (let score = (0 :: int);
          score = (if isHttps then score + 40 else score);
          score = (if hasHsts then score + 20 else score);
          score = (if hasXssProtection then score + 20 else score);
          score = (if hasCsp then score + 20 else score)
      in num_of_int score)"

definition calculateDomainAgeScore :: "number \<Rightarrow> number" where
  "calculateDomainAgeScore age =
     (if num_ge age (Fin 12) then Fin 100
      else if num_ge age (Fin 6) then Fin 80
      else if num_ge age (Fin 3) then Fin 60
      else if num_ge age (Fin 1) then Fin 40
      else Fin 20)"

definition calculateContentScore :: "number \<Rightarrow> number \<Rightarrow> number" where
  "calculateContentScore wordCount avgParagraphLength =
     (let score = (0 :: int);
          score = (if num_ge wordCount (Fin 1000) then score + 50
                   else if num_ge wordCount (Fin 500) then score + 30
                   else if num_ge wordCount (Fin 300) then score + 20
                   else score + 10);
          score = (if num_ge avgParagraphLength (Fin 100) then score + 50
                   else if num_ge avgParagraphLength (Fin 50) then score + 30
                   else if num_ge avgParagraphLength (Fin 30) then score + 20
                   else score + 10)
      in num_of_int score)"

definition calculateImageScore :: "number \<Rightarrow> number \<Rightarrow> number \<Rightarrow> number" where
  "calculateImageScore total' withAlt withTitle =
     (let score = (0 :: int);
          score = (if num_gt total' (Fin 0) then score + 40 else score);
          score = (if num_gt withAlt (Fin 0) then score + 30 else score);
          score = (if num_gt withTitle (Fin 0) then score + 30 else score)
      in num_of_int score)"

definition calculateMetaScore :: "bool \<Rightarrow> bool \<Rightarrow> bool \<Rightarrow> bool \<Rightarrow> bool \<Rightarrow> number" where
  "calculateMetaScore hasViewport hasRobots hasKeywords hasAuthor hasSocialMeta =
     (let score = (0 :: int);
          score = (if hasViewport then score + 30 else score);
          score = (if hasRobots then score + 20 else score);
          score = (if hasKeywords then score + 15 else score);
          score = (if hasAuthor then score + 15 else score);
          score = (if hasSocialMeta then score + 20 else score)
      in num_of_int score)"

definition calculatePerformanceScore :: "performance \<Rightarrow> number" where
  "calculatePerformanceScore perf =
     (let score = (0 :: int);
          scriptStatus = status (scripts perf);
          score = (if scriptStatus = ''passed'' then score + 30
                   else if scriptStatus = ''warning'' then score + 15 else score);
          stylesheetStatus = status (stylesheets perf);
          score = (if stylesheetStatus = ''passed'' then score + 30
                   else if stylesheetStatus = ''warning'' then score + 15 else score);
          loadTimeStatus = status (loadTime perf);
          score = (if loadTimeStatus = ''passed'' then score + 40
                   else if loadTimeStatus = ''warning'' then score + 20 else score)
      in Math_round (num_of_int score))"

definition calculateAccessibilityScore :: "accessibility \<Rightarrow> number" where
  "calculateAccessibilityScore acc =
     (let score = (0 :: int);
          imageStatus = status (images acc);
          score = (if imageStatus = ''passed'' then score + 40
                   else if imageStatus = ''warning'' then score + 20 else score);
          linkStatus = status (links acc);
          score = (if linkStatus = ''passed'' then score + 30
                   else if linkStatus = ''warning'' then score + 15 else score);
          formStatus = status (forms acc);
          score = (if formStatus = ''passed'' then score + 30
                   else if formStatus = ''warning'' then score + 15 else score)
      in Math_round (num_of_int score))"


section \<open>Performance and accessibility analysis\<close>

text \<open>
  Both functions start from three \<open>N/A\<close> entries and overwrite them inside a \<open>try\<close>
  block; selecting and counting elements of a parsed page does not throw, so the entries
  are always overwritten. Percentages are computed exactly here; in double arithmetic a
  quotient such as 23/40 times 100 falls just below the tie 57.5, so the code prints 57
  where the model prints 58. Only the printed number can differ, not the status.
\<close>

definition analyzePerformance :: "document \<Rightarrow> performance" where
  "analyzePerformance d =
     (let scriptCount = num_of_nat (sel_script d);
          stylesheetCount = num_of_nat (sel_stylesheet d);
          totalResources = num_add scriptCount stylesheetCount;
          estimatedLoadTime = Math_round (num_div (num_mul totalResources (Fin 100)) (Fin 1000))
      in \<lparr>loadTime =
            \<lparr>val = JString (ToString estimatedLoadTime @ '' seconds (estimated)''),
             status = (if num_gt estimatedLoadTime (Fin 3) then ''warning'' else ''passed'')\<rparr>,
          scripts =
            \<lparr>val = JString (ToString scriptCount @ '' scripts found''),
             status = (if num_gt scriptCount (Fin 10) then ''warning'' else ''passed'')\<rparr>,
          stylesheets =
            \<lparr>val = JString (ToString stylesheetCount @ '' stylesheets found''),
             status = (if num_gt stylesheetCount (Fin 5) then ''warning'' else ''passed'')\<rparr>\<rparr>)"

text \<open>
  The three percentages of \<open>analyzeAccessibility\<close> are computed by the same expression,
  \<open>total > 0 ? Math.round((part / total) * 100) : 0\<close>, and classified by the same
  expression, \<open>pct >= 90 ? 'passed' : pct >= 50 ? 'warning' : 'failed'\<close>.
\<close>

definition percentage :: "number \<Rightarrow> number \<Rightarrow> number" where
  "percentage part whole =
     (if num_gt whole (Fin 0) then Math_round (num_mul (num_div part whole) (Fin 100)) else Fin 0)"

definition percentage_status :: "number \<Rightarrow> string" where
  "percentage_status pct =
     (if num_ge pct (Fin 90) then ''passed''
      else if num_ge pct (Fin 50) then ''warning'' else ''failed'')"

definition analyzeAccessibility :: "document \<Rightarrow> accessibility" where
  "analyzeAccessibility d =
     (let imgs = sel_img d;
          imagesWithAlt = num_of_nat (length (filter (\<lambda>img. truthy_opt (alt img)) imgs));
          totalImages = num_of_nat (length imgs);
          altTextPercentage = percentage imagesWithAlt totalImages;
          lnks = sel_a d;
          linksWithText = num_of_nat (length (filter (\<lambda>link. truthy (trim (a_text link))) lnks));
          totalLinks = num_of_nat (length lnks);
          linkTextPercentage = percentage linksWithText totalLinks;
          frms = sel_form d;
          formsWithLabels = num_of_nat (length (filter (\<lambda>labels. 0 < labels) frms));
          totalForms = num_of_nat (length frms);
          formLabelPercentage = percentage formsWithLabels totalForms
      in \<lparr>images =
            \<lparr>val = JString (ToString altTextPercentage @ ''% of images have alt text (''
                     @ ToString imagesWithAlt @ ''/'' @ ToString totalImages @ '')''),
             status = percentage_status altTextPercentage\<rparr>,
          links =
            \<lparr>val = JString (ToString linkTextPercentage @ ''% of links have descriptive text (''
                     @ ToString linksWithText @ ''/'' @ ToString totalLinks @ '')''),
             status = percentage_status linkTextPercentage\<rparr>,
          forms =
            \<lparr>val = JString (ToString formLabelPercentage @ ''% of forms have labels (''
                     @ ToString formsWithLabels @ ''/'' @ ToString totalForms @ '')''),
             status = percentage_status formLabelPercentage\<rparr>\<rparr>)"

section \<open>The analysis pipeline\<close>

definition formattedUrl :: "string \<Rightarrow> string" where
  "formattedUrl url = (if startsWith url ''http'' then url else ''http://'' @ url)"

text \<open>\<open>href && P(href)\<close> for a link element.\<close>

definition href_and :: "(string \<Rightarrow> bool) \<Rightarrow> a_el \<Rightarrow> bool" where
  "href_and P el = (case href el of None \<Rightarrow> False | Some h \<Rightarrow> truthy h \<and> P h)"

text \<open>Step 6, the domain age check with its own \<open>try\<close>/\<open>catch\<close>.\<close>

definition domainAgeCheck :: "env \<Rightarrow> string \<Rightarrow> number" where
  "domainAgeCheck e fUrl =
     (case whoisLookup e fUrl of
        Rejected error \<Rightarrow> Fin 0
      | Resolved whoisData_creationDate \<Rightarrow>
          (let creationDate = new_Date whoisData_creationDate;
               now' = num_of_int (now e)
           in Math_round (num_div (num_sub now' creationDate) (Fin (1000 * 60 * 60 * 24 * 30)))))"

text \<open>The local variables of \<open>analyzeWebsite\<close> when it reaches step 12.\<close>

record facts =
  title :: string
  metaDescription :: "string option"
  h1Count :: number
  h2Count :: number
  h3Count :: number
  images_length :: number
  internalLinks :: number
  externalLinks :: number
  hasPrivacyPolicy :: bool
  hasContactPage :: bool
  hasAboutPage :: bool
  hasTermsPage :: bool
  isHttps :: bool
  hasHsts :: bool
  hasXssProtection :: bool
  hasCsp :: bool
  domainAge :: number
  wordCount :: number
  avgParagraphLength :: number
  imagesWithAlt :: number
  imagesWithTitle :: number
  hasViewport :: bool
  hasRobots :: bool
  hasKeywords :: bool
  hasAuthor :: bool
  hasSocialMeta :: bool
  performance :: performance
  accessibility :: accessibility

text \<open>\<open>links.filter((i, el) => { const href = $(el).attr('href'); return href && P(href); }).length\<close>\<close>

definition href_count :: "(string \<Rightarrow> bool) \<Rightarrow> a_el list \<Rightarrow> number" where
  "href_count P lnks = num_of_nat (length (filter (href_and P) lnks))"

definition page_facts :: "env \<Rightarrow> string \<Rightarrow> response \<Rightarrow> facts" where
  "page_facts e fUrl resp =
     (let d = data resp;
          imgs = sel_img d;
          lnks = sel_a d;
          internal = href_count (\<lambda>h. startsWith h ''/'' \<or> str_includes h fUrl) lnks;
          paragraphs = sel_p d;
          words = num_of_nat (length (split_ws (concat paragraphs)))
      in \<lparr>title = sel_title d,
          metaDescription = sel_meta_description d,
          h1Count = num_of_nat (sel_h1 d),
          h2Count = num_of_nat (sel_h2 d),
          h3Count = num_of_nat (sel_h3 d),
          images_length = num_of_nat (length imgs),
          internalLinks = internal,
          externalLinks = num_sub (num_of_nat (length lnks)) internal,
          hasPrivacyPolicy =
            num_gt (href_count (\<lambda>h. str_includes (toLowerCase h) ''privacy'') lnks) (Fin 0),
          hasContactPage =
            num_gt (href_count (\<lambda>h. str_includes (toLowerCase h) ''contact'') lnks) (Fin 0),
          hasAboutPage =
            num_gt (href_count (\<lambda>h. str_includes (toLowerCase h) ''about'') lnks) (Fin 0),
          hasTermsPage =
            num_gt (href_count (\<lambda>h. str_includes (toLowerCase h) ''terms'') lnks) (Fin 0),
          isHttps = startsWith fUrl ''https'',
          hasHsts = (headers resp ''strict-transport-security'' \<noteq> None),
          hasXssProtection = (headers resp ''x-xss-protection'' \<noteq> None),
          hasCsp = (headers resp ''content-security-policy'' \<noteq> None),
          domainAge = domainAgeCheck e fUrl,
          wordCount = words,
          avgParagraphLength = num_div words (num_of_nat (length paragraphs)),
          imagesWithAlt = num_of_nat (length (filter (\<lambda>el. truthy_opt (alt el)) imgs)),
          imagesWithTitle = num_of_nat (length (filter (\<lambda>el. truthy_opt (title_attr el)) imgs)),
          hasViewport = num_gt (num_of_nat (sel_meta_viewport d)) (Fin 0),
          hasRobots = num_gt (num_of_nat (sel_meta_robots d)) (Fin 0),
          hasKeywords = num_gt (num_of_nat (sel_meta_keywords d)) (Fin 0),
          hasAuthor = num_gt (num_of_nat (sel_meta_author d)) (Fin 0),
          hasSocialMeta = num_gt (num_of_nat (sel_meta_og d)) (Fin 0),
          performance = analyzePerformance d,
          accessibility = analyzeAccessibility d\<rparr>)"


subsection \<open>Step 12: the final score and the report\<close>

definition weights :: "rat obj" where
  "weights =
     [(''seo'', 25 / 100),
      (''requiredPages'', 15 / 100),
      (''security'', 15 / 100),
      (''domainAge'', 1 / 10),
      (''content'', 15 / 100),
      (''images'', 1 / 10),
      (''meta'', 1 / 10),
      (''performance'', 1 / 10),
      (''accessibility'', 1 / 10)]"

text \<open>\<open>weights[key]\<close>; a missing key reads \<open>undefined\<close>, which is NaN in a product.\<close>

definition weights_at :: "string \<Rightarrow> number" where
  "weights_at key = (case map_of weights key of None \<Rightarrow> NaN | Some w \<Rightarrow> Fin w)"

definition scores :: "facts \<Rightarrow> number obj" where
  "scores f =
     [(''seo'', calculateSEOScore (title f) (metaDescription f) (h1Count f) (h2Count f)
                 (h3Count f) (internalLinks f) (externalLinks f)),
      (''requiredPages'', calculateRequiredPagesScore (hasPrivacyPolicy f) (hasContactPage f)
                 (hasAboutPage f) (hasTermsPage f)),
      (''security'', calculateSecurityScore (isHttps f) (hasHsts f) (hasXssProtection f) (hasCsp f)),
      (''domainAge'', calculateDomainAgeScore (domainAge f)),
      (''content'', calculateContentScore (wordCount f) (avgParagraphLength f)),
      (''images'', calculateImageScore (images_length f) (imagesWithAlt f) (imagesWithTitle f)),
      (''meta'', calculateMetaScore (hasViewport f) (hasRobots f) (hasKeywords f) (hasAuthor f)
                 (hasSocialMeta f)),
      (''performance'', calculatePerformanceScore (performance f)),
      (''accessibility'', calculateAccessibilityScore (accessibility f))]"

definition finalScore :: "number obj \<Rightarrow> number" where
  "finalScore entries =
     foldl (\<lambda>total (key, score). num_add total (num_mul score (weights_at key))) (Fin 0) entries"

text \<open>A report entry \<open>{ value: v, status: ok ? 'passed' : otherwise }\<close>.\<close>

definition item :: "jsval \<Rightarrow> bool \<Rightarrow> string \<Rightarrow> criterion" where
  "item v ok otherwise = \<lparr>val = v, status = (if ok then ''passed'' else otherwise)\<rparr>"

definition report_details :: "facts \<Rightarrow> criterion obj obj" where
  "report_details f =
     [(''seo'',
        [(''title'', item (JString (title f)) (truthy (title f)) ''failed''),
         (''metaDescription'',
            item (case metaDescription f of None \<Rightarrow> JUndefined | Some s \<Rightarrow> JString s)
              (truthy_opt (metaDescription f)) ''failed''),
         (''h1Count'', item (JNumber (h1Count f)) (num_gt (h1Count f) (Fin 0)) ''failed''),
         (''h2Count'', item (JNumber (h2Count f)) (num_gt (h2Count f) (Fin 0)) ''warning''),
         (''h3Count'', item (JNumber (h3Count f)) (num_gt (h3Count f) (Fin 0)) ''warning''),
         (''internalLinks'',
            item (JNumber (internalLinks f)) (num_gt (internalLinks f) (Fin 0)) ''warning''),
         (''externalLinks'',
            item (JNumber (externalLinks f)) (num_gt (externalLinks f) (Fin 0)) ''warning'')]),
      (''requiredPages'',
        [(''privacyPolicy'', item (JBool (hasPrivacyPolicy f)) (hasPrivacyPolicy f) ''failed''),
         (''contactPage'', item (JBool (hasContactPage f)) (hasContactPage f) ''failed''),
         (''aboutPage'', item (JBool (hasAboutPage f)) (hasAboutPage f) ''failed''),
         (''termsPage'', item (JBool (hasTermsPage f)) (hasTermsPage f) ''warning'')]),
      (''security'',
        [(''https'', item (JBool (isHttps f)) (isHttps f) ''failed''),
         (''hsts'', item (JBool (hasHsts f)) (hasHsts f) ''warning''),
         (''xssProtection'', item (JBool (hasXssProtection f)) (hasXssProtection f) ''warning''),
         (''csp'', item (JBool (hasCsp f)) (hasCsp f) ''warning'')]),
      (''domain'',
        [(''age'',
            item (JString (ToString (domainAge f) @ '' months''))
              (num_ge (domainAge f) (Fin 6)) ''failed'')]),
      (''content'',
        [(''wordCount'', item (JNumber (wordCount f)) (num_ge (wordCount f) (Fin 500)) ''failed''),
         (''avgParagraphLength'',
            item (JNumber (Math_round (avgParagraphLength f)))
              (num_ge (avgParagraphLength f) (Fin 50)) ''warning'')]),
      (''images'',
        [(''total'', item (JNumber (images_length f)) (num_gt (images_length f) (Fin 0)) ''warning''),
         (''withAlt'', item (JNumber (imagesWithAlt f)) (num_gt (imagesWithAlt f) (Fin 0)) ''warning''),
         (''withTitle'',
            item (JNumber (imagesWithTitle f)) (num_gt (imagesWithTitle f) (Fin 0)) ''warning'')]),
      (''meta'',
        [(''viewport'', item (JBool (hasViewport f)) (hasViewport f) ''failed''),
         (''robots'', item (JBool (hasRobots f)) (hasRobots f) ''warning''),
         (''keywords'', item (JBool (hasKeywords f)) (hasKeywords f) ''warning''),
         (''author'', item (JBool (hasAuthor f)) (hasAuthor f) ''warning''),
         (''socialMeta'', item (JBool (hasSocialMeta f)) (hasSocialMeta f) ''warning'')]),
      (''performance'',
        [(''loadTime'', loadTime (performance f)),
         (''scripts'', scripts (performance f)),
         (''stylesheets'', stylesheets (performance f))]),
      (''accessibility'',
        [(''images'', images (accessibility f)),
         (''links'', links (accessibility f)),
         (''forms'', forms (accessibility f))])]"

definition make_report :: "facts \<Rightarrow> report" where
  "make_report f = \<lparr>score = Math_round (finalScore (scores f)), details = report_details f\<rparr>"

subsection \<open>Progress notifications and the whole function\<close>

definition updateProgress :: "number \<Rightarrow> number \<times> number" where
  "updateProgress step =
     (let totalSteps = Fin 10;
          progress = Math_round (num_mul (num_div step totalSteps) (Fin 100))
      in (progress, step))"

text \<open>
  \<open>analyzeWebsite\<close> returns the calls of \<open>onProgress\<close> it made, in order, and either the
  report or the message of the error it throws.
\<close>

definition analyzeWebsite :: "env \<Rightarrow> string \<Rightarrow> (number \<times> number) list \<times> (string + report)" where
  "analyzeWebsite e url =
     (let fUrl = formattedUrl url;
          notified = [updateProgress (Fin 0), updateProgress (Fin 1)]
      in case axios_get e fUrl of
           Inl message \<Rightarrow> (notified, Inl (''Analysis failed: '' @ message))
         | Inr resp \<Rightarrow>
             (let f = page_facts e fUrl resp;
                  notified = notified
                    @ map updateProgress [Fin 2, Fin 3, Fin 4, Fin 5, Fin 6, Fin 7, Fin 8, Fin 8]
                    @ [(Fin 80, Fin 8), updateProgress (Fin 9), (Fin 90, Fin 9),
                       updateProgress (Fin 10), updateProgress (Fin 10)]
              in (notified, Inr (make_report f))))"

section \<open>The request handler of \<open>/api/analyze\<close>\<close>

text \<open>
  The handler answers a request without a URL with status 400. Otherwise it writes
  server-sent events: a first progress event, one progress event for each call of
  \<open>onProgress\<close>, and then either the complete event with the report or the error event
  with the message of the exception; after that it ends the response.
\<close>

datatype sse = Progress number number | Complete report | Error string

datatype http_result = Status400 string | Stream "sse list"

definition analyze_handler :: "env \<Rightarrow> string option \<Rightarrow> http_result" where
  "analyze_handler e query_url =
     (case query_url of
        None \<Rightarrow> Status400 ''URL is required''
      | Some url \<Rightarrow>
          if \<not> truthy url then Status400 ''URL is required''
          else (let (notified, outcome) = analyzeWebsite e url;
                    sent = Progress (Fin 0) (Fin 0)
                      # map (\<lambda>(progress, step). Progress progress step) notified
                in case outcome of
                     Inr result \<Rightarrow> Stream (sent @ [Complete result])
                   | Inl message \<Rightarrow> Stream (sent @ [Error message])))"

fun is_error :: "sse \<Rightarrow> bool" where
  "is_error (Error m) = True"
| "is_error _ = False"

fun is_complete :: "sse \<Rightarrow> bool" where
  "is_complete (Complete r) = True"
| "is_complete _ = False"

section \<open>Notions of the specification\<close>

text \<open>
  The host of a URL, as the specification's "the target's host": what follows the scheme
  separator, up to the first of \<open>/\<close>, \<open>:\<close>, \<open>?\<close> and \<open>#\<close>.
\<close>

fun drop_scheme :: "string \<Rightarrow> string option" where
  "drop_scheme (a # b # c # s) =
     (if a = CHR '':'' \<and> b = CHR ''/'' \<and> c = CHR ''/'' then Some s else drop_scheme (b # c # s))"
| "drop_scheme s = None"

definition spec_host :: "string \<Rightarrow> string" where
  "spec_host u =
     takeWhile (\<lambda>c. c \<noteq> CHR ''/'' \<and> c \<noteq> CHR '':'' \<and> c \<noteq> CHR ''?'' \<and> c \<noteq> CHR ''#'')
       (case drop_scheme u of None \<Rightarrow> u | Some r \<Rightarrow> r)"

text \<open>The domain age the specification asks for: the lookup is made for the host.\<close>

definition spec_domainAge :: "env \<Rightarrow> string \<Rightarrow> number" where
  "spec_domainAge e url = domainAgeCheck e (spec_host (formattedUrl url))"

text \<open>A sub-score in the sense of the specification: an integer from 0 to 100.\<close>

fun is_subscore :: "number \<Rightarrow> bool" where
  "is_subscore (Fin a) = (a = of_int \<lfloor>a\<rfloor> \<and> 0 \<le> a \<and> a \<le> 100)"
| "is_subscore x = False"



section \<open>Sample pages\<close>

text \<open>
  A page that satisfies every criterion except that it has no paragraph, served over
  HTTPS with the three security headers, for a domain registered twelve 30-day months
  before the analysis.
\<close>

definition full_page :: document where
  "full_page =
     \<lparr>sel_title = ''Shop'', sel_meta_description = Some ''A shop'',
      sel_h1 = 1, sel_h2 = 1, sel_h3 = 1,
      sel_img = [\<lparr>alt = Some ''logo'', title_attr = Some ''Logo''\<rparr>],
      sel_a = [\<lparr>href = Some ''/privacy'', a_text = ''Privacy''\<rparr>,
               \<lparr>href = Some ''/contact'', a_text = ''Contact''\<rparr>,
               \<lparr>href = Some ''/about'', a_text = ''About''\<rparr>,
               \<lparr>href = Some ''/terms'', a_text = ''Terms''\<rparr>,
               \<lparr>href = Some ''https://partner.example/'', a_text = ''Partner''\<rparr>],
      sel_p = [],
      sel_meta_viewport = 1, sel_meta_robots = 1, sel_meta_keywords = 1, sel_meta_author = 1,
      sel_meta_og = 1, sel_script = 1, sel_stylesheet = 1, sel_form = [1]\<rparr>"

definition full_response :: response where
  "full_response =
     \<lparr>data = full_page,
      headers = map_of [(''strict-transport-security'', ''max-age=31536000''),
                        (''x-xss-protection'', ''1; mode=block''),
                        (''content-security-policy'', ''default-src https:'')]\<rparr>"

definition full_env :: env where
  "full_env =
     \<lparr>axios_get = (\<lambda>u. Inr full_response),
      whoisLookup = (\<lambda>u. Resolved (Some 0)),
      now = 31104000000\<rparr>"

text \<open>A world in which every fetch times out.\<close>

definition offline_env :: env where
  "offline_env =
     \<lparr>axios_get = (\<lambda>u. Inl ''timeout of 10000ms exceeded''),
      whoisLookup = (\<lambda>u. Rejected ''lookup failed''),
      now = 0\<rparr>"

text \<open>A page without any of the elements the analyser looks for, and its response.\<close>

definition bare_page :: document where
  "bare_page =
     \<lparr>sel_title = [], sel_meta_description = None, sel_h1 = 0, sel_h2 = 0, sel_h3 = 0,
      sel_img = [], sel_a = [], sel_p = [],
      sel_meta_viewport = 0, sel_meta_robots = 0, sel_meta_keywords = 0, sel_meta_author = 0,
      sel_meta_og = 0, sel_script = 0, sel_stylesheet = 0, sel_form = []\<rparr>"

definition bare_response :: response where
  "bare_response = \<lparr>data = bare_page, headers = Map.empty\<rparr>"

text \<open>
  A world in which the registration lookup resolves with data that has no
  \<open>creationDate\<close> field.
\<close>

definition undated_env :: env where
  "undated_env =
     \<lparr>axios_get = (\<lambda>u. Inr bare_response),
      whoisLookup = (\<lambda>u. Resolved None),
      now = 1700000000000\<rparr>"

text \<open>
  A world in which the registration lookup knows the host \<open>example.com\<close>, registered
  twenty-four 30-day months before the analysis, and rejects every other query.
\<close>

definition host_only_env :: env where
  "host_only_env =
     \<lparr>axios_get = (\<lambda>u. Inr bare_response),
      whoisLookup = (\<lambda>q. if q = ''example.com'' then Resolved (Some 0)
                          else Rejected ''no whois server is known for this kind of object''),
      now = 62208000000\<rparr>"

text \<open>A page with two links, one without \<open>href\<close> and one with an empty \<open>href\<close>.\<close>

definition hrefless_page :: document where
  "hrefless_page =
     bare_page\<lparr>sel_a := [\<lparr>href = None, a_text = ''top''\<rparr>, \<lparr>href = Some [], a_text = ''here''\<rparr>]\<rparr>"

text \<open>
  A page with two images: one with empty \<open>alt\<close> and \<open>title\<close> attributes, one with
  the alt text "logo" and no title.
\<close>

definition empty_alt_page :: document where
  "empty_alt_page =
     bare_page\<lparr>sel_img := [\<lparr>alt = Some [], title_attr = Some []\<rparr>,
                           \<lparr>alt = Some ''logo'', title_attr = None\<rparr>]\<rparr>"

section \<open>Properties of the sub-scores\<close>

lemma is_subscore_int: "is_subscore (num_of_int k) = (0 \<le> k \<and> k \<le> 100)"
  by simp

lemma Math_round_int: "Math_round (num_of_int k) = num_of_int k"
proof -
  have "\<lfloor>(of_int k :: rat) + 1 / 2\<rfloor> = k" by linarith
  then show ?thesis by simp
qed


lemma seo_closed_form:
  "calculateSEOScore t m h1 h2 h3 il el =
     num_of_int ((if truthy t then 20 else 0) + (if truthy_opt m then 20 else 0)
       + (if num_gt h1 (Fin 0) then 15 else 0) + (if num_gt h2 (Fin 0) then 10 else 0)
       + (if num_gt h3 (Fin 0) then 5 else 0) + (if num_gt il (Fin 0) then 15 else 0)
       + (if num_gt el (Fin 0) then 15 else 0))"
  by (simp add: calculateSEOScore_def Let_def)

lemma seo_range: "is_subscore (calculateSEOScore t m h1 h2 h3 il el)"
  unfolding seo_closed_form is_subscore_int by simp

lemma requiredPages_range: "is_subscore (calculateRequiredPagesScore a b c d)"
  by (simp add: calculateRequiredPagesScore_def Let_def)

lemma security_range: "is_subscore (calculateSecurityScore a b c d)"
  by (simp add: calculateSecurityScore_def Let_def)

lemma domainAge_range: "is_subscore (calculateDomainAgeScore age)"
  by (simp add: calculateDomainAgeScore_def)

lemma content_range: "is_subscore (calculateContentScore w a)"
  by (simp add: calculateContentScore_def Let_def)

lemma image_range: "is_subscore (calculateImageScore n a t)"
  by (simp add: calculateImageScore_def Let_def)

lemma meta_range: "is_subscore (calculateMetaScore a b c d e)"
  by (simp add: calculateMetaScore_def Let_def)

lemma performance_range: "is_subscore (calculatePerformanceScore p)"
  by (simp add: calculatePerformanceScore_def Let_def Math_round_int del: Math_round.simps)

lemma accessibility_range: "is_subscore (calculateAccessibilityScore a)"
  by (simp add: calculateAccessibilityScore_def Let_def Math_round_int del: Math_round.simps)

text \<open>
  C7. The SEO sub-score is the sum of the contributions title +20, meta description +20,
  H1 present +15, H2 present +10, H3 present +5, internal links present +15 and external
  links present +15. For the title "Shop", no meta description, one H1, no H2, two H3,
  three internal and two external links it is 70.
\<close>

theorem seo_score_contributions:
  "calculateSEOScore t m h1 h2 h3 il el =
     num_of_int ((if truthy t then 20 else 0) + (if truthy_opt m then 20 else 0)
       + (if num_gt h1 (Fin 0) then 15 else 0) + (if num_gt h2 (Fin 0) then 10 else 0)
       + (if num_gt h3 (Fin 0) then 5 else 0) + (if num_gt il (Fin 0) then 15 else 0)
       + (if num_gt el (Fin 0) then 15 else 0))
   \<and> calculateSEOScore ''Shop'' None (Fin 1) (Fin 0) (Fin 2) (Fin 3) (Fin 2) = Fin 70"
  by (simp add: seo_closed_form truthy_def)

text \<open>
  C8. Each of the nine sub-score functions returns an integer between 0 and 100, for all
  arguments, the special numbers NaN and Infinity and any status string included.
\<close>

theorem subscores_in_range:
  "is_subscore (calculateSEOScore t m h1 h2 h3 il el)
   \<and> is_subscore (calculateRequiredPagesScore p1 p2 p3 p4)
   \<and> is_subscore (calculateSecurityScore s1 s2 s3 s4)
   \<and> is_subscore (calculateDomainAgeScore age)
   \<and> is_subscore (calculateContentScore w a)
   \<and> is_subscore (calculateImageScore n wa wt)
   \<and> is_subscore (calculateMetaScore m1 m2 m3 m4 m5)
   \<and> is_subscore (calculatePerformanceScore perf)
   \<and> is_subscore (calculateAccessibilityScore acc)"
  by (intro conjI seo_range requiredPages_range security_range domainAge_range content_range
      image_range meta_range performance_range accessibility_range)


section \<open>The final score\<close>




section \<open>The event stream\<close>

lemma updateProgress_simps:
  "updateProgress (Fin 0) = (Fin 0, Fin 0)" "updateProgress (Fin 1) = (Fin 10, Fin 1)"
  "updateProgress (Fin 2) = (Fin 20, Fin 2)" "updateProgress (Fin 3) = (Fin 30, Fin 3)"
  "updateProgress (Fin 4) = (Fin 40, Fin 4)" "updateProgress (Fin 5) = (Fin 50, Fin 5)"
  "updateProgress (Fin 6) = (Fin 60, Fin 6)" "updateProgress (Fin 7) = (Fin 70, Fin 7)"
  "updateProgress (Fin 8) = (Fin 80, Fin 8)" "updateProgress (Fin 9) = (Fin 90, Fin 9)"
  "updateProgress (Fin 10) = (Fin 100, Fin 10)"
  by code_simp+

lemma analyzeWebsite_fetch_fails:
  "axios_get e (formattedUrl url) = Inl m \<Longrightarrow>
   analyzeWebsite e url = ([(Fin 0, Fin 0), (Fin 10, Fin 1)], Inl (''Analysis failed: '' @ m))"
  by (simp add: analyzeWebsite_def Let_def updateProgress_simps)

lemma analyzeWebsite_fetch_ok:
  "axios_get e (formattedUrl url) = Inr resp \<Longrightarrow>
   analyzeWebsite e url =
     ([(Fin 0, Fin 0), (Fin 10, Fin 1), (Fin 20, Fin 2), (Fin 30, Fin 3), (Fin 40, Fin 4),
       (Fin 50, Fin 5), (Fin 60, Fin 6), (Fin 70, Fin 7), (Fin 80, Fin 8), (Fin 80, Fin 8),
       (Fin 80, Fin 8), (Fin 90, Fin 9), (Fin 90, Fin 9), (Fin 100, Fin 10), (Fin 100, Fin 10)],
      Inr (make_report (page_facts e (formattedUrl url) resp)))"
  by (simp add: analyzeWebsite_def Let_def updateProgress_simps)




text \<open>
  C3. When the page fetch fails, the handler sends the initial progress event, the two
  progress events of steps 0 and 1, and then one error event whose message is the
  underlying message prefixed with "Analysis failed: "; the stream has exactly one error
  event, which is its last event, and no complete event.
\<close>

theorem fetch_failure_single_error_event:
  assumes "truthy url" and "axios_get e (formattedUrl url) = Inl m"
  shows "\<exists>sent. analyze_handler e (Some url) = Stream sent
     \<and> sent = [Progress (Fin 0) (Fin 0), Progress (Fin 0) (Fin 0), Progress (Fin 10) (Fin 1),
               Error (''Analysis failed: '' @ m)]
     \<and> length (filter is_error sent) = 1 \<and> filter is_complete sent = []
     \<and> last sent = Error (''Analysis failed: '' @ m)"
  using assms by (simp add: analyze_handler_def analyzeWebsite_fetch_fails)

theorem fetch_failure_single_error_event_witness:
  "truthy ''example.com''
   \<and> axios_get offline_env (formattedUrl ''example.com'') = Inl ''timeout of 10000ms exceeded''
   \<and> (\<exists>sent. analyze_handler offline_env (Some ''example.com'') = Stream sent
     \<and> sent = [Progress (Fin 0) (Fin 0), Progress (Fin 0) (Fin 0), Progress (Fin 10) (Fin 1),
               Error (''Analysis failed: '' @ ''timeout of 10000ms exceeded'')]
     \<and> length (filter is_error sent) = 1 \<and> filter is_complete sent = []
     \<and> last sent = Error (''Analysis failed: '' @ ''timeout of 10000ms exceeded''))"
proof -
  have t: "truthy ''example.com''" by (simp add: truthy_def)
  have h: "axios_get offline_env (formattedUrl ''example.com'') = Inl ''timeout of 10000ms exceeded''"
    by (simp add: offline_env_def)
  from t h fetch_failure_single_error_event [OF t h] show ?thesis by blast
qed


lemma fetch_success_completes:
  assumes "truthy url" and "axios_get e (formattedUrl url) = Inr resp"
  shows "\<exists>sent r. analyze_handler e (Some url) = Stream (sent @ [Complete r])
     \<and> filter is_error sent = [] \<and> filter is_complete sent = []"
  using assms by (simp add: analyze_handler_def analyzeWebsite_fetch_ok)

section \<open>The domain age\<close>

lemma domainAge_lookup_rejected:
  "whoisLookup e fUrl = Rejected m \<Longrightarrow> domainAge (page_facts e fUrl resp) = Fin 0"
  by (simp add: page_facts_def Let_def domainAgeCheck_def)

lemma round_quotient:
  assumes "0 < d"
  shows "\<lfloor>(of_int n :: rat) / of_int d + 1 / 2\<rfloor> = (2 * n + d) div (2 * d)"
proof -
  have "(of_int n :: rat) / of_int d + 1 / 2 = of_int (2 * n + d) / of_int (2 * d)"
    using assms by (simp add: field_simps)
  then show ?thesis by (simp only: floor_divide_of_int_eq)
qed

text \<open>
  C4 at a failing input. The fetch succeeds and the registration lookup resolves with
  data that has no creation date: the analysis completes, but the domain age is NaN, not
  0, and the report shows "NaN months".
\<close>

theorem missing_creation_date_gives_NaN_age:
  "map_sum id (\<lambda>r. map_of (details r) ''domain'')
       (snd (analyzeWebsite undated_env ''example.com''))
     = Inr (Some [(''age'', \<lparr>val = JString ''NaN months'', status = ''failed''\<rparr>)])
   \<and> domainAge (page_facts undated_env (formattedUrl ''example.com'') bare_response) = NaN"
  by code_simp

text \<open>
  The rounding of the age. When the lookup that the code makes resolves with a creation
  date \<open>t\<close>, the age is \<open>(now - t) / 2592000000\<close> rounded to the nearest integer, a tie
  going up.
\<close>

lemma domain_age_rounded_months:
  assumes "whoisLookup e (formattedUrl url) = Resolved (Some t)"
  shows "domainAge (page_facts e (formattedUrl url) resp)
       = Math_round (Fin (of_int (now e - t) / 2592000000))
   \<and> domainAge (page_facts e (formattedUrl url) resp)
       = num_of_int ((2 * (now e - t) + 2592000000) div 5184000000)"
proof -
  have d: "domainAge (page_facts e (formattedUrl url) resp)
       = Math_round (Fin (of_int (now e - t) / 2592000000))"
    using assms by (simp add: page_facts_def Let_def domainAgeCheck_def num_sub_def)
  have "\<lfloor>(of_int (now e - t) :: rat) / of_int 2592000000 + 1 / 2\<rfloor>
      = (2 * (now e - t) + 2592000000) div (2 * 2592000000)"
    by (rule round_quotient) simp
  then have "Math_round (Fin (of_int (now e - t) / 2592000000))
      = num_of_int ((2 * (now e - t) + 2592000000) div 5184000000)"
    by simp
  with d show ?thesis by simp
qed

lemma domain_age_twelve_months:
  "whoisLookup full_env (formattedUrl ''https://shop.example'') = Resolved (Some 0)
   \<and> domainAge (page_facts full_env (formattedUrl ''https://shop.example'') full_response)
       = Math_round (Fin (of_int (now full_env - 0) / 2592000000))
   \<and> domainAge (page_facts full_env (formattedUrl ''https://shop.example'') full_response)
       = num_of_int ((2 * (now full_env - 0) + 2592000000) div 5184000000)
   \<and> domainAge (page_facts full_env (formattedUrl ''https://shop.example'') full_response)
       = Fin 12"
proof -
  have h: "whoisLookup full_env (formattedUrl ''https://shop.example'') = Resolved (Some 0)"
    by (simp add: full_env_def)
  note r = domain_age_rounded_months [OF h, of full_response]
  have "domainAge (page_facts full_env (formattedUrl ''https://shop.example'') full_response)
       = Fin 12"
    using conjunct2 [OF r] by (simp add: full_env_def)
  with h r show ?thesis by blast
qed

text \<open>
  C6 at a failing input. The domain age check is to look up the target's host. For the
  target \<open>example.com\<close> the normalized URL is \<open>http://example.com\<close> and its host is
  \<open>example.com\<close>. In a world whose lookup answers for that host only, with a
  registration twenty-four 30-day months back, a lookup for the host gives 24 months; the
  code hands the whole URL to the lookup, is rejected, and reports "0 months".
\<close>

theorem whois_query_is_not_the_host:
  "formattedUrl ''example.com'' = ''http://example.com''
   \<and> spec_host (formattedUrl ''example.com'') = ''example.com''
   \<and> whoisLookup host_only_env (spec_host (formattedUrl ''example.com'')) = Resolved (Some 0)
   \<and> spec_domainAge host_only_env ''example.com'' = Fin 24
   \<and> domainAge (page_facts host_only_env (formattedUrl ''example.com'') bare_response) = Fin 0
   \<and> map_sum id (\<lambda>r. map_of (details r) ''domain'')
         (snd (analyzeWebsite host_only_env ''example.com''))
       = Inr (Some [(''age'', \<lparr>val = JString ''0 months'', status = ''failed''\<rparr>)])"
  by code_simp

section \<open>Content\<close>

text \<open>
  C10. For a page without paragraph elements the word count is 1, and the word-count
  part of the content sub-score is the lowest tier, 10, whatever the average paragraph
  length is.
\<close>

theorem zero_paragraphs_word_count:
  assumes "sel_p (data resp) = []"
  shows "wordCount (page_facts e fUrl resp) = Fin 1
   \<and> calculateContentScore (wordCount (page_facts e fUrl resp)) a =
       num_of_int (10 + (if num_ge a (Fin 100) then 50 else if num_ge a (Fin 50) then 30
                         else if num_ge a (Fin 30) then 20 else 10))"
  using assms by (simp add: page_facts_def Let_def calculateContentScore_def)

theorem zero_paragraphs_word_count_witness:
  "sel_p (data bare_response) = []
   \<and> wordCount (page_facts undated_env ''http://example.com'' bare_response) = Fin 1
   \<and> calculateContentScore
         (wordCount (page_facts undated_env ''http://example.com'' bare_response)) (Fin 0) =
       num_of_int (10 + (if num_ge (Fin 0) (Fin 100) then 50 else if num_ge (Fin 0) (Fin 50) then 30
                         else if num_ge (Fin 0) (Fin 30) then 20 else 10))"
proof -
  have h: "sel_p (data bare_response) = []"
    by (simp add: bare_response_def bare_page_def)
  from h zero_paragraphs_word_count [OF h, of undated_env "''http://example.com''" "Fin 0"]
  show ?thesis by (rule conjI)
qed

text \<open>
  C2 at a failing input. For the page without paragraphs the average paragraph length
  is \<open>1 / 0\<close>, that is Infinity, not 0: it earns the top tier of the content sub-score
  (10 + 50), and the report shows the value Infinity with the status "passed".
\<close>

theorem zero_paragraphs_average_is_Infinity:
  "avgParagraphLength (page_facts e fUrl bare_response) = Infinity
   \<and> calculateContentScore (wordCount (page_facts e fUrl bare_response))
        (avgParagraphLength (page_facts e fUrl bare_response)) = Fin 60
   \<and> map_of (report_details (page_facts e fUrl bare_response)) ''content'' =
       Some [(''wordCount'', \<lparr>val = JNumber (Fin 1), status = ''failed''\<rparr>),
             (''avgParagraphLength'', \<lparr>val = JNumber Infinity, status = ''passed''\<rparr>)]"
  by (simp add: page_facts_def Let_def bare_response_def bare_page_def signed_inf_def
      calculateContentScore_def report_details_def item_def)

section \<open>Images and links\<close>

lemma truthy_opt_iff: "truthy_opt x = (x \<noteq> None \<and> x \<noteq> Some [])"
  by (cases x) (simp_all add: truthy_def)

text \<open>
  C9. The images counted as having alt text are those whose \<open>alt\<close> attribute is present
  and not empty, in the image sub-score's count and in the numerator of the accessibility
  percentage alike, and the same holds for the \<open>title\<close> attribute. On the page with one
  image with \<open>alt=""\<close> and \<open>title=""\<close> and one with \<open>alt="logo"\<close>, one image has alt
  text, none has a title, and the accessibility entry reads 50% (1/2).
\<close>

theorem empty_alt_not_counted:
  "imagesWithAlt (page_facts e fUrl resp) =
     num_of_nat (length (filter (\<lambda>el. alt el \<noteq> None \<and> alt el \<noteq> Some []) (sel_img (data resp))))
   \<and> imagesWithTitle (page_facts e fUrl resp) =
     num_of_nat (length (filter (\<lambda>el. title_attr el \<noteq> None \<and> title_attr el \<noteq> Some [])
       (sel_img (data resp))))
   \<and> images (analyzeAccessibility d) =
     (let k = num_of_nat (length (filter (\<lambda>el. alt el \<noteq> None \<and> alt el \<noteq> Some []) (sel_img d)));
          n = num_of_nat (length (sel_img d))
      in \<lparr>val = JString (ToString (percentage k n) @ ''% of images have alt text (''
              @ ToString k @ ''/'' @ ToString n @ '')''),
          status = percentage_status (percentage k n)\<rparr>)
   \<and> imagesWithAlt (page_facts e fUrl \<lparr>data = empty_alt_page, headers = hs\<rparr>) = Fin 1
   \<and> imagesWithTitle (page_facts e fUrl \<lparr>data = empty_alt_page, headers = hs\<rparr>) = Fin 0
   \<and> val (images (analyzeAccessibility empty_alt_page))
       = JString ''50% of images have alt text (1/2)''"
proof (intro conjI)
  show "val (images (analyzeAccessibility empty_alt_page))
      = JString ''50% of images have alt text (1/2)''"
    by code_simp
qed (simp_all add: page_facts_def analyzeAccessibility_def Let_def truthy_opt_iff
      empty_alt_page_def bare_page_def)

lemma formattedUrl_nonempty: "formattedUrl url \<noteq> []"
  by (simp add: formattedUrl_def startsWith_def) auto

lemma internal_href_iff:
  assumes "fUrl \<noteq> []"
  shows "href_and (\<lambda>h. startsWith h ''/'' \<or> str_includes h fUrl) l
     = (\<exists>h. href l = Some h \<and> (startsWith h ''/'' \<or> str_includes h fUrl))"
proof (cases "href l")
  case None
  then show ?thesis by (simp add: href_and_def)
next
  case (Some h)
  show ?thesis
  proof (cases "h = []")
    case True
    with Some assms show ?thesis by (simp add: href_and_def truthy_def startsWith_def)
  next
    case False
    with Some show ?thesis by (simp add: href_and_def truthy_def)
  qed
qed

lemma not_internal_iff:
  assumes "fUrl \<noteq> []"
  shows "(\<not> href_and (\<lambda>h. startsWith h ''/'' \<or> str_includes h fUrl) l)
     = (href l = None \<or> href l = Some []
        \<or> (\<exists>h. href l = Some h \<and> \<not> startsWith h ''/'' \<and> \<not> str_includes h fUrl))"
proof (cases "href l")
  case None
  then show ?thesis by (simp add: href_and_def)
next
  case (Some h)
  show ?thesis
  proof (cases "h = []")
    case True
    with Some assms show ?thesis by (simp add: href_and_def truthy_def startsWith_def)
  next
    case False
    with Some show ?thesis by (auto simp add: href_and_def truthy_def)
  qed
qed

lemma num_sub_length_filter:
  "num_sub (num_of_nat (length xs)) (num_of_nat (length (filter P xs)))
     = num_of_nat (length (filter (\<lambda>x. \<not> P x) xs))"
proof -
  have "length xs = length (filter P xs) + length (filter (\<lambda>x. \<not> P x) xs)"
    by (rule sum_length_filter_compl [symmetric])
  then have "(of_nat (length xs) :: rat)
      = of_nat (length (filter P xs)) + of_nat (length (filter (\<lambda>x. \<not> P x) xs))"
    by (metis of_nat_add)
  then show ?thesis by (simp add: num_sub_def)
qed

text \<open>
  C5, as the code has it. The internal links are the links whose \<open>href\<close> starts with
  \<open>/\<close> or contains the normalized URL. Every other link is counted as external, the
  links with a missing or an empty \<open>href\<close> included: the external count is the number
  of links minus the internal count.
\<close>

theorem link_classification:
  "internalLinks (page_facts e (formattedUrl url) resp) =
     num_of_nat (length (filter
       (\<lambda>l. \<exists>h. href l = Some h \<and> (startsWith h ''/'' \<or> str_includes h (formattedUrl url)))
       (sel_a (data resp))))
   \<and> externalLinks (page_facts e (formattedUrl url) resp) =
     num_of_nat (length (filter
       (\<lambda>l. href l = None \<or> href l = Some []
          \<or> (\<exists>h. href l = Some h \<and> \<not> startsWith h ''/'' \<and> \<not> str_includes h (formattedUrl url)))
       (sel_a (data resp))))"
proof -
  let ?P = "href_and (\<lambda>h. startsWith h ''/'' \<or> str_includes h (formattedUrl url))"
  have i: "internalLinks (page_facts e (formattedUrl url) resp)
      = num_of_nat (length (filter ?P (sel_a (data resp))))"
    by (simp add: page_facts_def Let_def href_count_def)
  have x: "externalLinks (page_facts e (formattedUrl url) resp)
      = num_of_nat (length (filter (\<lambda>l. \<not> ?P l) (sel_a (data resp))))"
    by (simp add: page_facts_def Let_def href_count_def num_sub_length_filter del: of_nat_add)
  have P1: "?P = (\<lambda>l. \<exists>h. href l = Some h
      \<and> (startsWith h ''/'' \<or> str_includes h (formattedUrl url)))"
    by (rule ext) (rule internal_href_iff [OF formattedUrl_nonempty])
  have P2: "(\<lambda>l. \<not> ?P l) = (\<lambda>l. href l = None \<or> href l = Some []
      \<or> (\<exists>h. href l = Some h \<and> \<not> startsWith h ''/'' \<and> \<not> str_includes h (formattedUrl url)))"
    by (rule ext) (rule not_internal_iff [OF formattedUrl_nonempty])
  from i have i': "internalLinks (page_facts e (formattedUrl url) resp) =
     num_of_nat (length (filter
       (\<lambda>l. \<exists>h. href l = Some h \<and> (startsWith h ''/'' \<or> str_includes h (formattedUrl url)))
       (sel_a (data resp))))"
    by (simp only: P1)
  from x have x': "externalLinks (page_facts e (formattedUrl url) resp) =
     num_of_nat (length (filter
       (\<lambda>l. href l = None \<or> href l = Some []
          \<or> (\<exists>h. href l = Some h \<and> \<not> startsWith h ''/'' \<and> \<not> str_includes h (formattedUrl url)))
       (sel_a (data resp))))"
    by (simp only: P2)
  from i' x' show ?thesis by (rule conjI)
qed

text \<open>
  C5 as stated fails: on the page whose two links have no \<open>href\<close> and an empty
  \<open>href\<close>, no link is internal and both are counted as external.
\<close>

theorem links_without_href_counted_external:
  "internalLinks (page_facts undated_env (formattedUrl ''example.com'')
      \<lparr>data = hrefless_page, headers = Map.empty\<rparr>) = Fin 0
   \<and> externalLinks (page_facts undated_env (formattedUrl ''example.com'')
      \<lparr>data = hrefless_page, headers = Map.empty\<rparr>) = Fin 2"
  by (simp add: page_facts_def Let_def href_count_def hrefless_page_def bare_page_def href_and_def
      truthy_def num_sub_def)

end
